theory Spec2Isabelle
  imports Main "HOL-Library.Sublist"
begin

section \<open>The shorthand parser of pkg/parser/parser.go\<close>

text \<open>
  Go strings are byte sequences; they are modelled as \<^typ>\<open>string\<close>, a list of
  8-bit characters. All four regular expressions of the parser use ASCII classes only, so
  matching byte by byte agrees with Go's matching rune by rune: a byte outside ASCII is in
  none of the classes and counts as a non-space character for \<^verbatim>\<open>\S\<close>.
\<close>

subsection \<open>Character classes\<close>

definition is_digit :: "char \<Rightarrow> bool" where
  "is_digit c \<longleftrightarrow> c \<in> set ''0123456789''"

definition is_alpha :: "char \<Rightarrow> bool" where
  "is_alpha c \<longleftrightarrow> c \<in> set ''ABCDEFGHIJKLMNOPQRSTUVWXYZabcdefghijklmnopqrstuvwxyz''"

text \<open>The class \<^verbatim>\<open>[A-Za-z0-9]\<close>.\<close>

definition is_alnum :: "char \<Rightarrow> bool" where
  "is_alnum c \<longleftrightarrow> is_alpha c \<or> is_digit c"

text \<open>The class \<^verbatim>\<open>\w\<close>, which is \<^verbatim>\<open>[0-9A-Za-z_]\<close> in Go.\<close>

definition is_word :: "char \<Rightarrow> bool" where
  "is_word c \<longleftrightarrow> is_alnum c \<or> c = CHR ''_''"

text \<open>The class \<^verbatim>\<open>[-A-Za-z0-9]\<close>.\<close>

definition is_user_char :: "char \<Rightarrow> bool" where
  "is_user_char c \<longleftrightarrow> is_alnum c \<or> c = CHR ''-''"

text \<open>The class \<^verbatim>\<open>[\w\.\-]\<close>.\<close>

definition is_name_char :: "char \<Rightarrow> bool" where
  "is_name_char c \<longleftrightarrow> is_word c \<or> c = CHR ''.'' \<or> c = CHR ''-''"

text \<open>The class \<^verbatim>\<open>\s\<close>, which is \<^verbatim>\<open>[\t\n\f\r ]\<close> in Go.\<close>

definition is_space :: "char \<Rightarrow> bool" where
  "is_space c \<longleftrightarrow> c \<in> set [CHR 0x09, CHR 0x0A, CHR 0x0C, CHR 0x0D, CHR '' '']"

subsection \<open>The regular expressions\<close>

text \<open>
  \<^verbatim>\<open>userRepoRegexp = ^([A-Za-z0-9][-A-Za-z0-9]*)/([\w\.\-]*)(\A|\z|\w)\<close>.
  The owner is the longest run of \<^verbatim>\<open>[-A-Za-z0-9]\<close> (no shorter run is followed
  by a slash). The name is greedy; the last group never matches \<^verbatim>\<open>\A\<close> here,
  matches \<^verbatim>\<open>\z\<close> when the greedy name reaches the end of the text, and
  otherwise takes one \<^verbatim>\<open>\w\<close> character, for which the name is given back
  character by character until the character given back last is a word character.
  \<^verbatim>\<open>FindString\<close> returns the empty string when there is no match.
\<close>

definition userRepoRegexp_FindString :: "string \<Rightarrow> string" where
  "userRepoRegexp_FindString s =
    (case s of
       [] \<Rightarrow> []
     | c # _ \<Rightarrow>
         if is_alnum c then
           (case dropWhile is_user_char s of
              [] \<Rightarrow> []
            | d # t \<Rightarrow>
                if d = CHR ''/'' then
                  (if dropWhile is_name_char t = [] then s
                   else
                     (case rev (dropWhile (\<lambda>x. \<not> is_word x) (rev (takeWhile is_name_char t))) of
                        [] \<Rightarrow> []
                      | k # ks \<Rightarrow> takeWhile is_user_char s @ ''/'' @ k # ks))
                else [])
         else [])"

text \<open>
  \<^verbatim>\<open>userRegexp = ^([A-Za-z0-9][-A-Za-z0-9]*)\b\<close>. The run is greedy and is given
  back character by character until a word boundary follows it: the first argument of
  \<open>userRegexp_backtrack\<close> is the run taken so far, reversed, the second the text after it.
\<close>

fun userRegexp_backtrack :: "string \<Rightarrow> string \<Rightarrow> string" where
  "userRegexp_backtrack [] rest = []"
| "userRegexp_backtrack (c # taken) rest =
     (if is_word c \<noteq> (case rest of [] \<Rightarrow> False | d # _ \<Rightarrow> is_word d)
      then rev (c # taken)
      else userRegexp_backtrack taken (c # rest))"

definition userRegexp_FindString :: "string \<Rightarrow> string" where
  "userRegexp_FindString s =
    (case s of
       [] \<Rightarrow> []
     | c # _ \<Rightarrow>
         if is_alnum c
         then userRegexp_backtrack (rev (takeWhile is_user_char s)) (dropWhile is_user_char s)
         else [])"

text \<open>An optional single character \<^verbatim>\<open>x?\<close> at the head of the text.\<close>

definition skip_optional :: "char \<Rightarrow> string \<Rightarrow> string" where
  "skip_optional x s = (case s of [] \<Rightarrow> [] | c # t \<Rightarrow> if c = x then t else s)"

text \<open>
  \<^verbatim>\<open>issueRegexp = ^ ?#?([1-9]\d*)$\<close>. \<^verbatim>\<open>FindStringSubmatch\<close> returns
  the whole match and the first group, or nil (here \<open>None\<close>).
\<close>

definition issueRegexp_FindStringSubmatch :: "string \<Rightarrow> (string \<times> string) option" where
  "issueRegexp_FindStringSubmatch s =
    (case skip_optional (CHR ''#'') (skip_optional (CHR '' '') s) of
       [] \<Rightarrow> None
     | d # ds \<Rightarrow>
         if is_digit d \<and> d \<noteq> CHR ''0'' \<and> list_all is_digit ds then Some (s, d # ds)
         else None)"

definition issueRegexp_FindString :: "string \<Rightarrow> string" where
  "issueRegexp_FindString s =
    (case issueRegexp_FindStringSubmatch s of None \<Rightarrow> [] | Some (m, _) \<Rightarrow> m)"

definition issueRegexp_MatchString :: "string \<Rightarrow> bool" where
  "issueRegexp_MatchString s \<longleftrightarrow> issueRegexp_FindStringSubmatch s \<noteq> None"

text \<open>\<^verbatim>\<open>pathRegexp = ^ ?(/\S*)$\<close>.\<close>

definition pathRegexp_FindStringSubmatch :: "string \<Rightarrow> (string \<times> string) option" where
  "pathRegexp_FindStringSubmatch s =
    (case skip_optional (CHR '' '') s of
       [] \<Rightarrow> None
     | c # t \<Rightarrow>
         if c = CHR ''/'' \<and> list_all (\<lambda>x. \<not> is_space x) t then Some (s, c # t)
         else None)"

subsection \<open>The string functions used\<close>

text \<open>\<^verbatim>\<open>strings.TrimRight(s, cutset)\<close> and \<^verbatim>\<open>strings.TrimPrefix(s, prefix)\<close>.\<close>

definition TrimRight :: "string \<Rightarrow> string \<Rightarrow> string" where
  "TrimRight s cutset = rev (dropWhile (\<lambda>c. c \<in> set cutset) (rev s))"

definition TrimPrefix :: "string \<Rightarrow> string \<Rightarrow> string" where
  "TrimPrefix s p = (if prefix p s then drop (length p) s else s)"

subsection \<open>Parser configuration and results\<close>

record Parser =
  repoMap :: "string \<rightharpoonup> string"
  userMap :: "string \<rightharpoonup> string"
  defaultRepo :: string
  requireRepo :: bool
  parseRepo :: bool
  parseUser :: bool
  parseIssue :: bool
  parsePath :: bool
  parseQuery :: bool

text \<open>The constructor and the functional options (lines 25 to 58).\<close>

definition RequireRepo :: "Parser \<Rightarrow> Parser" where
  "RequireRepo p = p\<lparr>parseRepo := True, requireRepo := True\<rparr>"

definition WithRepo :: "Parser \<Rightarrow> Parser" where
  "WithRepo p = p\<lparr>parseRepo := True\<rparr>"

definition WithUser :: "Parser \<Rightarrow> Parser" where
  "WithUser p = p\<lparr>parseUser := True\<rparr>"

definition WithIssue :: "Parser \<Rightarrow> Parser" where
  "WithIssue p = p\<lparr>parseIssue := True\<rparr>"

definition WithPath :: "Parser \<Rightarrow> Parser" where
  "WithPath p = p\<lparr>parsePath := True\<rparr>"

definition WithQuery :: "Parser \<Rightarrow> Parser" where
  "WithQuery p = p\<lparr>parseQuery := True\<rparr>"

definition NewParser ::
  "(string \<rightharpoonup> string) \<Rightarrow> (string \<rightharpoonup> string) \<Rightarrow> string \<Rightarrow> (Parser \<Rightarrow> Parser) list \<Rightarrow> Parser" where
  "NewParser repoMap' userMap' defaultRepo' options =
    fold (\<lambda>option parser. option parser) options
      \<lparr>repoMap = repoMap', userMap = userMap', defaultRepo = defaultRepo',
       requireRepo = False, parseRepo = False, parseUser = False, parseIssue = False,
       parsePath = False, parseQuery = False\<rparr>"

text \<open>
  Modelled from the spec: the result types \<^verbatim>\<open>Result\<close> and \<^verbatim>\<open>NewResult\<close>
  are declared outside parser.go. The fields that parser.go assigns are kept under their
  names, and \<^verbatim>\<open>Name\<close> is added. The spec's repository has the form owner/name. Both
  entry points, having found a repository, check it for expansion (the comment of line
  66): they read its owner from the field \<^verbatim>\<open>User\<close> right after
  \<^verbatim>\<open>SetRepo\<close> and overwrite it there with the owner's expansion (lines 67 to 71 and
  153 to 157). So the owner of the repository is held in \<^verbatim>\<open>User\<close>, as a bare user
  is, and what follows the first slash is held in \<^verbatim>\<open>Name\<close>. An absent field is
  the empty string, the zero value of Go.
\<close>

record Result =
  User :: string
  Name :: string
  RepoMatch :: string
  UserMatch :: string
  Query :: string

record NewResult =
  User :: string
  Name :: string
  RepoShorthand :: string
  UserShorthand :: string
  Issue :: string
  Path :: string
  Query :: string

text \<open>
  Modelled from the spec: the methods \<^verbatim>\<open>SetRepo\<close>, \<^verbatim>\<open>HasRepo\<close> and
  \<^verbatim>\<open>HasUser\<close> of the result types, declared outside parser.go as well.
  \<^verbatim>\<open>SetRepo\<close> splits its argument at the first slash into owner and name; a text
  without a slash has no such reading and leaves the result as it is. A result has a
  repository when owner and name are both present, and a user when \<^verbatim>\<open>User\<close> is.
\<close>

definition repo_owner :: "string \<Rightarrow> string" where
  "repo_owner repo = takeWhile (\<lambda>c. c \<noteq> CHR ''/'') repo"

definition repo_name :: "string \<Rightarrow> string" where
  "repo_name repo = drop 1 (dropWhile (\<lambda>c. c \<noteq> CHR ''/'') repo)"

definition SetRepo :: "NewResult \<Rightarrow> string \<Rightarrow> NewResult" where
  "SetRepo r repo =
    (if CHR ''/'' \<in> set repo then r\<lparr>User := repo_owner repo, Name := repo_name repo\<rparr> else r)"

definition HasRepo :: "NewResult \<Rightarrow> bool" where
  "HasRepo r \<longleftrightarrow> length (NewResult.User r) > 0 \<and> length (NewResult.Name r) > 0"

definition HasUser :: "NewResult \<Rightarrow> bool" where
  "HasUser r \<longleftrightarrow> length (NewResult.User r) > 0"

text \<open>
  Modelled from the spec: the repository of a result, read as owner/name; the empty string
  when there is none.
\<close>

definition Repo :: "NewResult \<Rightarrow> string" where
  "Repo r = (if HasRepo r then NewResult.User r @ ''/'' @ NewResult.Name r else [])"

definition Result_SetRepo :: "Result \<Rightarrow> string \<Rightarrow> Result" where
  "Result_SetRepo r repo =
    (if CHR ''/'' \<in> set repo
     then r\<lparr>Result.User := repo_owner repo, Result.Name := repo_name repo\<rparr> else r)"

definition Result_Repo :: "Result \<Rightarrow> string" where
  "Result_Repo r =
    (if length (Result.User r) > 0 \<and> length (Result.Name r) > 0
     then Result.User r @ ''/'' @ Result.Name r else [])"

text \<open>The zero values \<^verbatim>\<open>&NewResult{}\<close> and \<^verbatim>\<open>var res Result\<close>.\<close>

definition emptyResult :: NewResult where
  "emptyResult =
    \<lparr>User = [], Name = [], RepoShorthand = [], UserShorthand = [], Issue = [], Path = [],
     Query = []\<rparr>"

definition zeroResult :: Result where
  "zeroResult =
    \<lparr>Result.User = [], Result.Name = [], RepoMatch = [], UserMatch = [], Result.Query = []\<rparr>"

subsection \<open>The method Parse\<close>

text \<open>
  The method is one sequence of blocks, each working on the result so far and the input
  not yet consumed; each block is a function on that pair. \<open>Parse_repo\<close> is the
  recognition of a repository or a user (lines 65 to 88).
\<close>

definition Parse_repo :: "Parser \<Rightarrow> string \<Rightarrow> NewResult \<times> string" where
  "Parse_repo p input =
    (let repo = userRepoRegexp_FindString input; user = userRegexp_FindString input in
     if length repo > 0 then
       (let res = SetRepo emptyResult repo in
        case userMap p (NewResult.User res) of
          Some shortUser \<Rightarrow>
            (res\<lparr>UserShorthand := NewResult.User res, User := shortUser\<rparr>,
             drop (length repo) input)
        | None \<Rightarrow> (res, drop (length repo) input))
     else if length user > 0 then
       (case repoMap p user of
          Some shortRepo \<Rightarrow>
            ((SetRepo emptyResult shortRepo)\<lparr>RepoShorthand := user\<rparr>,
             drop (length user) input)
        | None \<Rightarrow>
            if parseUser p then
              (let res = emptyResult\<lparr>User := user\<rparr> in
               case userMap p user of
                 Some shortUser \<Rightarrow>
                   (res\<lparr>UserShorthand := user, User := shortUser\<rparr>, drop (length user) input)
               | None \<Rightarrow> (res, drop (length user) input))
            else (emptyResult, input))
     else (emptyResult, input))"

text \<open>
  The default repository (lines 91 to 110); \<open>None\<close> is the early return of the empty
  result at line 101.
\<close>

definition Parse_default :: "Parser \<Rightarrow> NewResult \<times> string \<Rightarrow> (NewResult \<times> string) option" where
  "Parse_default p st =
    (case st of (res, input) \<Rightarrow>
      if parseRepo p \<and> \<not> HasRepo res \<and> length (defaultRepo p) > 0 then
        (if parseUser p \<and> HasUser res then
           (if length (issueRegexp_FindString (NewResult.User res)) > 0 then
              (if length input > 0 then None
               else Some (SetRepo (res\<lparr>Issue := NewResult.User res\<rparr>) (defaultRepo p), input))
            else Some (res, input))
         else Some (SetRepo res (defaultRepo p), input))
      else Some (res, input))"

text \<open>The issue (lines 118 to 123) and the path (lines 125 to 130).\<close>

definition Parse_issue :: "Parser \<Rightarrow> NewResult \<times> string \<Rightarrow> NewResult \<times> string" where
  "Parse_issue p st =
    (case st of (res, input) \<Rightarrow>
      if parseIssue p then
        (case issueRegexp_FindStringSubmatch input of
           Some (m0, m1) \<Rightarrow> (res\<lparr>Issue := m1\<rparr>, drop (length m0) input)
         | None \<Rightarrow> (res, input))
      else (res, input))"

definition Parse_path :: "Parser \<Rightarrow> NewResult \<times> string \<Rightarrow> NewResult \<times> string" where
  "Parse_path p st =
    (case st of (res, input) \<Rightarrow>
      if parsePath p then
        (case pathRegexp_FindStringSubmatch input of
           Some (m0, m1) \<Rightarrow> (res\<lparr>Path := m1\<rparr>, drop (length m0) input)
         | None \<Rightarrow> (res, input))
      else (res, input))"

text \<open>The query, or the rejection of leftover input (lines 132 to 139).\<close>

definition Parse_query :: "Parser \<Rightarrow> NewResult \<times> string \<Rightarrow> NewResult" where
  "Parse_query p st =
    (case st of (res, input) \<Rightarrow>
      if parseQuery p then res\<lparr>Query := TrimPrefix (TrimRight input '' '') '' ''\<rparr>
      else if length input > 0 then emptyResult
      else res)"

text \<open>
  Lines 113 to 139: the check that a required repository is there, then the issue, the
  path and the query.
\<close>

definition Parse_rest :: "Parser \<Rightarrow> NewResult \<times> string \<Rightarrow> NewResult" where
  "Parse_rest p st =
    (if requireRepo p \<and> \<not> HasRepo (fst st) then emptyResult
     else Parse_query p (Parse_path p (Parse_issue p st)))"

text \<open>
  Everything before the query block: the result so far and the input that no recognizer
  has consumed, or \<open>None\<close> where Parse has returned the empty result already (lines 101
  and 115).
\<close>

definition Parse_tokens :: "Parser \<Rightarrow> string \<Rightarrow> (NewResult \<times> string) option" where
  "Parse_tokens p input =
    (case (if parseRepo p then Parse_default p (Parse_repo p input)
           else Some (emptyResult, input)) of
       None \<Rightarrow> None
     | Some st \<Rightarrow>
         if requireRepo p \<and> \<not> HasRepo (fst st) then None
         else Some (Parse_path p (Parse_issue p st)))"

definition Parse :: "Parser \<Rightarrow> string \<Rightarrow> NewResult" where
  "Parse p input =
    (case (if parseRepo p then Parse_default p (Parse_repo p input)
           else Some (emptyResult, input)) of
       None \<Rightarrow> emptyResult
     | Some st \<Rightarrow> Parse_rest p st)"

text \<open>
  Lines 62 to 116, everything before the issue block: the result so far and the remaining
  input that the issue block receives, or \<open>None\<close> where Parse has returned the empty result
  already (lines 101 and 115).
\<close>

definition Parse_before_issue :: "Parser \<Rightarrow> string \<Rightarrow> (NewResult \<times> string) option" where
  "Parse_before_issue p input =
    (case (if parseRepo p then Parse_default p (Parse_repo p input)
           else Some (emptyResult, input)) of
       None \<Rightarrow> None
     | Some st \<Rightarrow> if requireRepo p \<and> \<not> HasRepo (fst st) then None else Some st)"

subsection \<open>The function Parse, the simplified entry point\<close>

definition Parse_simple ::
  "(string \<rightharpoonup> string) \<Rightarrow> (string \<rightharpoonup> string) \<Rightarrow> string \<Rightarrow> bool \<Rightarrow> bool \<Rightarrow> Result" where
  "Parse_simple repoMap' userMap' input bareUser ignoreNumeric =
    (let r = userRepoRegexp_FindString input; u = userRegexp_FindString input in
     case
       (if length r > 0 then
          (let res = Result_SetRepo zeroResult r in
           case userMap' (Result.User res) of
             Some su \<Rightarrow>
               (res\<lparr>UserMatch := Result.User res, Result.User := su\<rparr>, drop (length r) input)
           | None \<Rightarrow> (res, drop (length r) input))
        else if length u > 0 then
          (case repoMap' u of
             Some sr \<Rightarrow> ((Result_SetRepo zeroResult sr)\<lparr>RepoMatch := u\<rparr>, drop (length u) input)
           | None \<Rightarrow>
               (case userMap' u of
                  Some su \<Rightarrow>
                    (zeroResult\<lparr>UserMatch := u, Result.User := su\<rparr>, drop (length u) input)
                | None \<Rightarrow>
                    if bareUser \<and> (\<not> ignoreNumeric \<or> \<not> issueRegexp_MatchString input)
                    then (zeroResult\<lparr>Result.User := u\<rparr>, drop (length u) input)
                    else (zeroResult, input)))
        else (zeroResult, input)) of
       (res, rest) \<Rightarrow> res\<lparr>Result.Query := TrimPrefix (TrimRight rest '' '') '' ''\<rparr>)"

subsection \<open>The issue token in the words of the specification\<close>

text \<open>
  The specification describes the issue token as an optional leading space, an optional
  \<^verbatim>\<open>#\<close>, then one or more digits with no leading zero, up to the end of the
  remaining input. \<open>spec_issue_shape s ds\<close> says that the text \<open>s\<close> is of that form, with
  the digits \<open>ds\<close>. It is compared with \<open>issueRegexp\<close> below and used nowhere in the
  parser.
\<close>

definition spec_issue_shape :: "string \<Rightarrow> string \<Rightarrow> bool" where
  "spec_issue_shape s ds \<longleftrightarrow>
     ds \<noteq> [] \<and> list_all is_digit ds \<and> hd ds \<noteq> CHR ''0'' \<and>
     s \<in> set [ds, CHR ''#'' # ds, CHR '' '' # ds, CHR '' '' # CHR ''#'' # ds]"

section \<open>Properties\<close>

subsection \<open>Auxiliary facts\<close>

lemma is_digit_alnum: "is_digit c \<Longrightarrow> is_alnum c"
  by (simp add: is_alnum_def)

lemma is_alnum_word: "is_alnum c \<Longrightarrow> is_word c"
  by (simp add: is_word_def)

lemma is_alnum_user_char: "is_alnum c \<Longrightarrow> is_user_char c"
  by (simp add: is_user_char_def)

lemma is_alnum_not_space_hash: "is_alnum c \<Longrightarrow> c \<noteq> CHR '' '' \<and> c \<noteq> CHR ''#''"
  by (auto simp: is_alnum_def is_alpha_def is_digit_def)

lemma issueRegexp_Nil: "issueRegexp_FindStringSubmatch [] = None"
  by (simp add: issueRegexp_FindStringSubmatch_def skip_optional_def)

lemma pathRegexp_Nil: "pathRegexp_FindStringSubmatch [] = None"
  by (simp add: pathRegexp_FindStringSubmatch_def skip_optional_def)

lemma TrimRight_Cons:
  "TrimRight (c # t) cs = (if c \<in> set cs \<and> TrimRight t cs = [] then [] else c # TrimRight t cs)"
proof (cases "\<forall>x\<in>set t. x \<in> set cs")
  case True
  then have "dropWhile (\<lambda>c. c \<in> set cs) (rev t @ [c]) = dropWhile (\<lambda>c. c \<in> set cs) [c]"
    by (intro dropWhile_append2) simp
  moreover from True have "TrimRight t cs = []"
    by (simp add: TrimRight_def)
  ultimately show ?thesis
    by (simp add: TrimRight_def)
next
  case False
  then obtain x where "x \<in> set (rev t)" "\<not> x \<in> set cs"
    by auto
  then have "dropWhile (\<lambda>c. c \<in> set cs) (rev t @ [c]) = dropWhile (\<lambda>c. c \<in> set cs) (rev t) @ [c]"
    by (rule dropWhile_append1)
  moreover from False have "TrimRight t cs \<noteq> []"
    by (auto simp: TrimRight_def)
  ultimately show ?thesis
    by (simp add: TrimRight_def)
qed

text \<open>
  Trimming the spaces on the right and then one space on the left is the same as doing it
  in the other order.
\<close>

lemma trim_order:
  "TrimPrefix (TrimRight s '' '') '' '' = TrimRight (TrimPrefix s '' '') '' ''"
proof (cases s)
  case Nil
  then show ?thesis by (simp add: TrimRight_def TrimPrefix_def)
next
  case (Cons c t)
  then show ?thesis
    by (auto simp: TrimRight_Cons TrimPrefix_def)
qed

text \<open>Parse is the query block run on what the recognizers leave.\<close>

lemma Parse_eq_tokens:
  "Parse p input =
    (case Parse_tokens p input of None \<Rightarrow> emptyResult | Some st \<Rightarrow> Parse_query p st)"
  by (auto simp: Parse_def Parse_tokens_def Parse_rest_def split: option.splits)

subsection \<open>Facts about the regular expressions\<close>

lemma is_digit_not_space_hash: "is_digit c \<Longrightarrow> c \<noteq> CHR '' '' \<and> c \<noteq> CHR ''#''"
  by (auto simp: is_digit_def)

lemma is_alnum_not_slash: "is_alnum c \<Longrightarrow> c \<noteq> CHR ''/''"
  by (auto simp: is_alnum_def is_alpha_def is_digit_def)

lemma issueRegexp_digits:
  assumes "ds \<noteq> []" "list_all is_digit ds" "hd ds \<noteq> CHR ''0''"
  shows "issueRegexp_FindStringSubmatch ds = Some (ds, ds)"
proof -
  from assms obtain d ds' where ds: "ds = d # ds'" "is_digit d" "d \<noteq> CHR ''0''" "list_all is_digit ds'"
    by (cases ds) auto
  then show ?thesis
    using is_digit_not_space_hash [of d]
    by (simp add: issueRegexp_FindStringSubmatch_def skip_optional_def)
qed

lemma issueRegexp_leading_zero:
  assumes "ds \<noteq> []" "hd ds = CHR ''0''"
  shows "issueRegexp_FindStringSubmatch ds = None"
  using assms by (cases ds) (simp_all add: issueRegexp_FindStringSubmatch_def skip_optional_def)

lemma issueRegexp_shape:
  assumes "spec_issue_shape s ds"
  shows "issueRegexp_FindStringSubmatch s = Some (s, ds)"
proof -
  from assms obtain d ds' where ds: "ds = d # ds'" "is_digit d" "d \<noteq> CHR ''0''" "list_all is_digit ds'"
    by (cases ds) (auto simp: spec_issue_shape_def)
  from assms have "s = ds \<or> s = CHR ''#'' # ds \<or> s = CHR '' '' # ds \<or> s = CHR '' '' # CHR ''#'' # ds"
    by (auto simp: spec_issue_shape_def)
  then show ?thesis
    using ds is_digit_not_space_hash [of d]
    by (auto simp: issueRegexp_FindStringSubmatch_def skip_optional_def)
qed

lemma issueRegexp_match_shape:
  assumes "issueRegexp_FindStringSubmatch s = Some (m0, m1)"
  shows "m0 = s \<and> spec_issue_shape s m1"
  using assms
  by (auto simp: issueRegexp_FindStringSubmatch_def skip_optional_def spec_issue_shape_def
      split: list.splits if_splits)

lemma issueRegexp_digits_then_text:
  assumes "ds \<noteq> []" "list_all is_digit ds" "\<not> list_all is_digit t"
  shows "issueRegexp_FindStringSubmatch (ds @ t) = None"
proof -
  from assms obtain d ds' where ds: "ds = d # ds'" "is_digit d" "list_all is_digit ds'"
    by (cases ds) auto
  then show ?thesis
    using is_digit_not_space_hash [of d] assms(3)
    by (simp add: issueRegexp_FindStringSubmatch_def skip_optional_def)
qed

text \<open>A text of letters and digits only is matched whole by \<open>userRegexp\<close>.\<close>

lemma userRegexp_alnum:
  assumes "s \<noteq> []" "list_all is_alnum s"
  shows "userRegexp_FindString s = s"
proof -
  from assms obtain c t where s: "s = c # t" "is_alnum c"
    by (cases s) auto
  from assms have all: "\<forall>x\<in>set s. is_user_char x"
    by (auto simp: list_all_iff is_alnum_user_char)
  then have tw: "takeWhile is_user_char s = s" "dropWhile is_user_char s = []"
    by simp_all
  from assms obtain l r where rs: "rev s = l # r" "is_alnum l"
    by (cases "rev s") (auto simp: list_all_iff)
  then have "userRegexp_backtrack (rev s) [] = rev (rev s)"
    by (simp add: is_alnum_word)
  with s tw show ?thesis
    by (simp add: userRegexp_FindString_def)
qed

lemma userRegexp_head:
  assumes "userRegexp_FindString s \<noteq> []"
  shows "\<exists>c t. s = c # t \<and> is_alnum c"
  using assms by (cases s) (auto simp: userRegexp_FindString_def split: if_splits)

text \<open>
  The match of \<open>userRegexp\<close> is a prefix of the text: a letter or digit, then letters,
  digits and hyphens, with a word boundary after it.
\<close>

lemma userRegexp_backtrack_shape:
  assumes "userRegexp_backtrack taken rest = u" "u \<noteq> []"
  shows "\<exists>rest'. rev taken @ rest = u @ rest' \<and> set u \<subseteq> set taken \<and>
    (is_word (last u) \<noteq> (case rest' of [] \<Rightarrow> False | d # _ \<Rightarrow> is_word d))"
  using assms
proof (induction taken arbitrary: rest)
  case Nil
  then show ?case by simp
next
  case (Cons c taken)
  show ?case
  proof (cases "is_word c \<noteq> (case rest of [] \<Rightarrow> False | d # _ \<Rightarrow> is_word d)")
    case True
    with Cons.prems have "u = rev (c # taken)"
      by simp
    with True show ?thesis
      by (intro exI [of _ rest]) auto
  next
    case False
    with Cons.prems have "userRegexp_backtrack taken (c # rest) = u"
      by simp
    from Cons.IH [OF this Cons.prems(2)] show ?thesis
      by auto
  qed
qed

lemma userRegexp_token_shape:
  assumes "userRegexp_FindString s = u" "u \<noteq> []"
  shows "prefix u s \<and> is_alnum (hd u) \<and> list_all is_user_char u \<and>
    (is_word (last u) \<noteq> (case drop (length u) s of [] \<Rightarrow> False | d # _ \<Rightarrow> is_word d))"
proof -
  from assms userRegexp_head [of s] obtain c t where s: "s = c # t" "is_alnum c"
    by auto
  with assms have bt:
    "userRegexp_backtrack (rev (takeWhile is_user_char s)) (dropWhile is_user_char s) = u"
    by (simp add: userRegexp_FindString_def)
  from userRegexp_backtrack_shape [OF bt assms(2)] obtain rest' where
    r: "s = u @ rest'" "set u \<subseteq> set (takeWhile is_user_char s)"
      "is_word (last u) \<noteq> (case rest' of [] \<Rightarrow> False | d # _ \<Rightarrow> is_word d)"
    by auto
  from r(2) have "list_all is_user_char u"
    by (auto simp: list_all_iff dest: set_takeWhileD)
  moreover from r(1) s assms(2) have "hd u = c"
    by (cases u) auto
  ultimately show ?thesis
    using r(1,3) s(2) by auto
qed

text \<open>The match of \<open>userRepoRegexp\<close> is a prefix of the text as well.\<close>

lemma rev_dropWhile_rev_prefix: "prefix (rev (dropWhile P (rev xs))) xs"
proof -
  have "xs = rev (takeWhile P (rev xs) @ dropWhile P (rev xs))"
    by simp
  then have "xs = rev (dropWhile P (rev xs)) @ rev (takeWhile P (rev xs))"
    by (simp only: rev_append)
  then show ?thesis
    by (metis prefixI)
qed

lemma userRepoRegexp_prefix: "prefix (userRepoRegexp_FindString s) s"
proof (cases "userRepoRegexp_FindString s = [] \<or> userRepoRegexp_FindString s = s")
  case True
  then show ?thesis by auto
next
  case False
  then obtain t k ks where dw: "dropWhile is_user_char s = CHR ''/'' # t"
    and k: "rev (dropWhile (\<lambda>x. \<not> is_word x) (rev (takeWhile is_name_char t))) = k # ks"
    and m: "userRepoRegexp_FindString s = takeWhile is_user_char s @ CHR ''/'' # k # ks"
    by (auto simp: userRepoRegexp_FindString_def split: list.splits if_splits)
  have "prefix (k # ks) (takeWhile is_name_char t)"
    using rev_dropWhile_rev_prefix [of "\<lambda>x. \<not> is_word x" "takeWhile is_name_char t"] k by simp
  moreover have "prefix (takeWhile is_name_char t) t"
    by (metis prefixI takeWhile_dropWhile_id)
  ultimately have "prefix (k # ks) t"
    by (rule prefix_order.trans)
  then have "prefix (takeWhile is_user_char s @ CHR ''/'' # k # ks)
      (takeWhile is_user_char s @ CHR ''/'' # t)"
    by simp
  with dw m takeWhile_dropWhile_id [of is_user_char s] show ?thesis
    by simp
qed

text \<open>
  When the leading token is all digits, the whole input matches \<open>issueRegexp\<close> exactly when
  the input is that token and the token has no leading zero.
\<close>

lemma issue_match_of_token:
  assumes "userRegexp_FindString input = u" "u \<noteq> []" "list_all is_digit u"
  shows "issueRegexp_MatchString input \<longleftrightarrow> input = u \<and> hd u \<noteq> CHR ''0''"
proof
  assume "issueRegexp_MatchString input"
  then obtain m0 m1 where "issueRegexp_FindStringSubmatch input = Some (m0, m1)"
    by (auto simp: issueRegexp_MatchString_def)
  then have sh: "spec_issue_shape input m1"
    by (simp add: issueRegexp_match_shape)
  from assms userRegexp_head [of input] obtain c t where i: "input = c # t" "is_alnum c"
    by auto
  with sh is_alnum_not_space_hash [of c] have "input = m1"
    by (auto simp: spec_issue_shape_def)
  with sh have "input \<noteq> []" "list_all is_alnum input" "hd input \<noteq> CHR ''0''"
    by (auto simp: spec_issue_shape_def list_all_iff is_digit_alnum)
  with assms(1) userRegexp_alnum [of input] show "input = u \<and> hd u \<noteq> CHR ''0''"
    by simp
next
  assume "input = u \<and> hd u \<noteq> CHR ''0''"
  with assms issueRegexp_digits [of u] show "issueRegexp_MatchString input"
    by (simp add: issueRegexp_MatchString_def)
qed

text \<open>A match of \<open>userRepoRegexp\<close> holds a slash after an owner that is not empty.\<close>

lemma userRepo_match_shape:
  assumes "userRepoRegexp_FindString input = repo" "repo \<noteq> []"
  shows "CHR ''/'' \<in> set repo \<and> repo_owner repo \<noteq> []"
proof -
  from assms obtain c t0 where i: "input = c # t0" "is_alnum c"
    by (cases input) (auto simp: userRepoRegexp_FindString_def split: if_splits)
  with assms obtain t where dw: "dropWhile is_user_char input = CHR ''/'' # t"
    by (auto simp: userRepoRegexp_FindString_def split: if_splits list.splits)
  then have "CHR ''/'' \<in> set (dropWhile is_user_char input)"
    by simp
  then have sl: "CHR ''/'' \<in> set input"
    by (rule set_dropWhileD)
  from i have tw: "takeWhile is_user_char input = c # takeWhile is_user_char t0"
    by (simp add: is_alnum_user_char)
  from assms i dw have "repo = input \<or> (\<exists>ks. repo = takeWhile is_user_char input @ CHR ''/'' # ks)"
    by (auto simp: userRepoRegexp_FindString_def split: if_splits list.splits)
  then have "CHR ''/'' \<in> set repo \<and> (\<exists>r. repo = c # r)"
    using sl i tw by auto
  with i is_alnum_not_slash [of c] show ?thesis
    by (auto simp: repo_owner_def)
qed

lemma trim_digits:
  assumes "list_all is_digit u"
  shows "TrimPrefix (TrimRight u '' '') '' '' = u"
proof -
  have ns: "\<forall>x\<in>set u. x \<noteq> CHR '' ''"
    using assms is_digit_not_space_hash by (auto simp: list_all_iff)
  have "TrimRight u '' '' = u"
  proof (cases "rev u")
    case Nil
    then show ?thesis by (simp add: TrimRight_def)
  next
    case (Cons l r)
    then have "l \<in> set u"
      by (metis list.set_intros(1) set_rev)
    with ns have "l \<noteq> CHR '' ''" by simp
    with Cons show ?thesis
      by (simp add: TrimRight_def)
  qed
  moreover have "\<not> prefix '' '' u"
    using ns by (cases u) auto
  ultimately show ?thesis
    by (simp add: TrimPrefix_def)
qed

subsection \<open>Facts about results and the blocks of Parse\<close>

lemma repo_split:
  assumes "CHR ''/'' \<in> set d"
  shows "repo_owner d @ CHR ''/'' # repo_name d = d"
proof -
  from assms have "dropWhile (\<lambda>c. c \<noteq> CHR ''/'') d \<noteq> []"
    by simp
  then obtain x xs where dw: "dropWhile (\<lambda>c. c \<noteq> CHR ''/'') d = x # xs"
    by (cases "dropWhile (\<lambda>c. c \<noteq> CHR ''/'') d") auto
  with hd_dropWhile [of "\<lambda>c. c \<noteq> CHR ''/''" d] have "x = CHR ''/''"
    by simp
  with dw takeWhile_dropWhile_id [of "\<lambda>c. c \<noteq> CHR ''/''" d] show ?thesis
    by (simp add: repo_owner_def repo_name_def)
qed

lemma SetRepo_fields:
  "CHR ''/'' \<in> set d \<Longrightarrow> SetRepo r d = r\<lparr>User := repo_owner d, Name := repo_name d\<rparr>"
  by (simp add: SetRepo_def)

lemma HasRepo_SetRepo:
  assumes "HasRepo (SetRepo emptyResult d)"
  shows "CHR ''/'' \<in> set d \<and> repo_owner d \<noteq> [] \<and> repo_name d \<noteq> []"
  using assms by (auto simp: HasRepo_def SetRepo_def emptyResult_def split: if_splits)

lemma Repo_fields:
  assumes "CHR ''/'' \<in> set d" "repo_owner d \<noteq> []" "repo_name d \<noteq> []"
    "NewResult.User r = repo_owner d" "NewResult.Name r = repo_name d"
  shows "Repo r = d"
  using assms repo_split [of d] by (simp add: Repo_def HasRepo_def)

text \<open>With a repository and no input left, the rest of Parse changes nothing.\<close>

lemma Parse_rest_Nil:
  assumes "HasRepo res" "Query res = []"
  shows "Parse_rest p (res, []) = res"
  using assms
  by (simp add: Parse_rest_def Parse_issue_def Parse_path_def Parse_query_def issueRegexp_Nil
      pathRegexp_Nil TrimRight_def TrimPrefix_def)

text \<open>The rest of Parse rejects, or leaves repository, user and shorthands as they are.\<close>

lemma Parse_rest_keeps:
  "Parse_rest p (res, rest) = emptyResult \<or>
   (NewResult.User (Parse_rest p (res, rest)) = NewResult.User res \<and>
    NewResult.Name (Parse_rest p (res, rest)) = NewResult.Name res \<and>
    RepoShorthand (Parse_rest p (res, rest)) = RepoShorthand res \<and>
    UserShorthand (Parse_rest p (res, rest)) = UserShorthand res)"
  by (auto simp: Parse_rest_def Parse_issue_def Parse_path_def Parse_query_def
      split: option.splits)

lemma Parse_default_none:
  "defaultRepo p = [] \<Longrightarrow> Parse_default p st = Some st"
  by (cases st) (simp add: Parse_default_def)

lemma Parse_default_HasRepo:
  "HasRepo (fst st) \<Longrightarrow> Parse_default p st = Some st"
  by (cases st) (simp add: Parse_default_def)

text \<open>Parse seen from the state that the issue block receives.\<close>

lemma Parse_eq_before_issue:
  "Parse p input =
    (case Parse_before_issue p input of
       None \<Rightarrow> emptyResult
     | Some st \<Rightarrow> Parse_query p (Parse_path p (Parse_issue p st)))"
  by (auto simp: Parse_def Parse_before_issue_def Parse_rest_def split: option.splits)

lemma Parse_path_Nil: "Parse_path p (res, []) = (res, [])"
  by (simp add: Parse_path_def pathRegexp_Nil)

lemma Parse_query_Nil:
  "Parse_query p (res, []) = (if parseQuery p then res\<lparr>Query := []\<rparr> else res)"
  by (simp add: Parse_query_def TrimRight_def TrimPrefix_def)

lemma Parse_path_Issue: "Issue (fst (Parse_path p st)) = Issue (fst st)"
  by (cases st) (auto simp: Parse_path_def split: option.splits)

lemma Parse_query_Issue:
  "Parse_query p st = emptyResult \<or> Issue (Parse_query p st) = Issue (fst st)"
  by (cases st) (auto simp: Parse_query_def)

subsection \<open>Leftover input\<close>

text \<open>
  C2: with the query disabled, when the recognizers of Parse (repository or user, default
  repository, issue, path) leave some input unconsumed, Parse returns the empty result,
  whatever the recognizers had found: no partial match is returned.
\<close>

theorem C2_leftover_rejected:
  assumes "\<not> parseQuery p"
    and "Parse_tokens p input = Some (res, rest)"
    and "rest \<noteq> []"
  shows "Parse p input = emptyResult"
  using assms by (simp add: Parse_eq_tokens Parse_query_def)

text \<open>
  With the table wp \<rightarrow> my/widgets, the input \<^verbatim>\<open>wp /issues x\<close> has its shorthand
  recognized as a repository, and the rest is left over.
\<close>

theorem C2_leftover_rejected_witness:
  "Parse_tokens (NewParser [''wp'' \<mapsto> ''my/widgets''] Map.empty [] [WithRepo, WithIssue, WithPath])
      ''wp /issues x''
    = Some (emptyResult\<lparr>User := ''my'', Name := ''widgets'', RepoShorthand := ''wp''\<rparr>,
        '' /issues x'')
   \<and> Parse (NewParser [''wp'' \<mapsto> ''my/widgets''] Map.empty [] [WithRepo, WithIssue, WithPath])
      ''wp /issues x'' = emptyResult"
proof -
  let ?p = "NewParser [''wp'' \<mapsto> ''my/widgets''] Map.empty [] [WithRepo, WithIssue, WithPath]"
  have q: "\<not> parseQuery ?p"
    by (simp add: NewParser_def WithRepo_def WithIssue_def WithPath_def)
  have t: "Parse_tokens ?p ''wp /issues x''
    = Some (emptyResult\<lparr>User := ''my'', Name := ''widgets'', RepoShorthand := ''wp''\<rparr>,
        '' /issues x'')"
    by code_simp
  have "'' /issues x'' \<noteq> []"
    by simp
  from C2_leftover_rejected [OF q t this] t show ?thesis
    by simp
qed

subsection \<open>The query alone\<close>

text \<open>
  C7: a parser that looks for no repository, issue or path and captures the query returns
  a result with the query as its only field: the input without its trailing spaces and
  without one leading space (in either order of trimming). With the query disabled too,
  every input that is not empty gives the empty result.
\<close>

theorem C7_query_only:
  assumes "\<not> parseRepo p" and "\<not> requireRepo p" and "\<not> parseIssue p" and "\<not> parsePath p"
  shows "(parseQuery p \<longrightarrow>
            Parse p input = emptyResult\<lparr>Query := TrimPrefix (TrimRight input '' '') '' ''\<rparr>
          \<and> Query (Parse p input) = TrimRight (TrimPrefix input '' '') '' '')
       \<and> (\<not> parseQuery p \<longrightarrow> input \<noteq> [] \<longrightarrow> Parse p input = emptyResult)"
  using assms
  by (simp add: Parse_def Parse_rest_def Parse_issue_def Parse_path_def Parse_query_def
      trim_order)

theorem C7_query_only_witness:
  "Parse (NewParser Map.empty Map.empty [] [WithQuery]) ''  a/b  #1  ''
     = emptyResult\<lparr>Query := '' a/b  #1''\<rparr>
   \<and> Parse (NewParser Map.empty Map.empty [] []) ''a/b'' = emptyResult"
proof -
  let ?q = "NewParser Map.empty Map.empty [] [WithQuery]"
  let ?n = "NewParser Map.empty Map.empty [] []"
  have q: "\<not> parseRepo ?q" "\<not> requireRepo ?q" "\<not> parseIssue ?q" "\<not> parsePath ?q" "parseQuery ?q"
    by (simp_all add: NewParser_def WithQuery_def)
  have n: "\<not> parseRepo ?n" "\<not> requireRepo ?n" "\<not> parseIssue ?n" "\<not> parsePath ?n" "\<not> parseQuery ?n"
    by (simp_all add: NewParser_def)
  have trim: "TrimPrefix (TrimRight ''  a/b  #1  '' '' '') '' '' = '' a/b  #1''"
    by code_simp
  from C7_query_only [OF q(1-4), of "''  a/b  #1  ''"] C7_query_only [OF n(1-4), of "''a/b''"]
    q(5) n(5) trim
  show ?thesis
    by simp
qed

subsection \<open>The recognition of a repository or a user\<close>

text \<open>What lines 65 to 88 do with an input that starts with an owner/name token.\<close>

lemma Parse_repo_match:
  assumes "userRepoRegexp_FindString input = repo" "repo \<noteq> []"
  shows "Parse_repo p input =
    (case userMap p (repo_owner repo) of
       None \<Rightarrow>
         (emptyResult\<lparr>User := repo_owner repo, Name := repo_name repo\<rparr>, drop (length repo) input)
     | Some su \<Rightarrow>
         (emptyResult\<lparr>User := su, Name := repo_name repo, UserShorthand := repo_owner repo\<rparr>,
          drop (length repo) input))"
  using assms userRepo_match_shape [OF assms]
  by (simp add: Parse_repo_def Let_def SetRepo_fields emptyResult_def split: option.splits)

text \<open>What they do with an input that starts with a bare token and no owner/name token.\<close>

lemma Parse_repo_token:
  assumes "userRepoRegexp_FindString input = []" "userRegexp_FindString input = u" "u \<noteq> []"
  shows "Parse_repo p input =
    (case repoMap p u of
       Some shortRepo \<Rightarrow>
         ((SetRepo emptyResult shortRepo)\<lparr>RepoShorthand := u\<rparr>, drop (length u) input)
     | None \<Rightarrow>
         if parseUser p then
           (case userMap p u of
              Some shortUser \<Rightarrow>
                (emptyResult\<lparr>User := shortUser, UserShorthand := u\<rparr>, drop (length u) input)
            | None \<Rightarrow> (emptyResult\<lparr>User := u\<rparr>, drop (length u) input))
         else (emptyResult, input))"
  using assms by (simp add: Parse_repo_def Let_def split: option.splits)

lemma Parse_with_repo:
  assumes "parseRepo p" "Parse_repo p input = (res, rest)" "HasRepo res"
  shows "Parse p input = Parse_rest p (res, rest)"
  using assms by (simp add: Parse_def Parse_default_HasRepo)





lemma Parse_simple_token:
  assumes "userRepoRegexp_FindString input = []" "userRegexp_FindString input = u" "u \<noteq> []"
    "rm u = None"
  shows "Parse_simple rm um input bareUser ignoreNumeric =
    (case um u of
       Some su \<Rightarrow>
         zeroResult\<lparr>UserMatch := u, Result.User := su,
           Result.Query := TrimPrefix (TrimRight (drop (length u) input) '' '') '' ''\<rparr>
     | None \<Rightarrow>
         if bareUser \<and> (\<not> ignoreNumeric \<or> \<not> issueRegexp_MatchString input)
         then zeroResult\<lparr>Result.User := u,
           Result.Query := TrimPrefix (TrimRight (drop (length u) input) '' '') '' ''\<rparr>
         else zeroResult\<lparr>Result.Query := TrimPrefix (TrimRight input '' '') '' ''\<rparr>)"
  using assms by (auto simp: Parse_simple_def Let_def split: option.splits)

lemma Parse_simple_bareUser_only:
  assumes "userRepoRegexp_FindString input \<noteq> [] \<or> userRegexp_FindString input = []
    \<or> rm (userRegexp_FindString input) \<noteq> None \<or> um (userRegexp_FindString input) \<noteq> None"
  shows "Parse_simple rm um input b1 ign = Parse_simple rm um input b2 ign"
  using assms by (auto simp: Parse_simple_def Let_def split: option.splits)

lemma Result_Repo_SetRepo:
  assumes "CHR ''/'' \<in> set sr" "repo_owner sr \<noteq> []" "repo_name sr \<noteq> []"
  shows "Result_Repo ((Result_SetRepo zeroResult sr)\<lparr>RepoMatch := u, Result.Query := q\<rparr>) = sr"
  using assms repo_split [of sr] by (simp add: Result_Repo_def Result_SetRepo_def)

lemma Parse_simple_repo_token:
  assumes "userRepoRegexp_FindString input = []" "userRegexp_FindString input = u" "u \<noteq> []"
    "rm u = Some sr"
  shows "Parse_simple rm um input bareUser ignoreNumeric =
    (Result_SetRepo zeroResult sr)
      \<lparr>RepoMatch := u,
       Result.Query := TrimPrefix (TrimRight (drop (length u) input) '' '') '' ''\<rparr>"
  using assms by (simp add: Parse_simple_def Let_def)




subsection \<open>An owner/name token\<close>




text \<open>
  C8: a text of the form owner/name, matched whole by \<open>userRepoRegexp\<close> and with a name
  that is not empty, whose owner is not a key of the user table, is parsed by every parser
  that looks for a repository into exactly that repository, with no shorthand recorded
  (and nothing else: the whole result is given).
\<close>

theorem C8_canonical_form:
  assumes "parseRepo p"
    and "userRepoRegexp_FindString s = s" "repo_name s \<noteq> []"
    and "userMap p (repo_owner s) = None"
  shows "Parse p s = emptyResult\<lparr>User := repo_owner s, Name := repo_name s\<rparr>
       \<and> Repo (Parse p s) = s
       \<and> RepoShorthand (Parse p s) = [] \<and> UserShorthand (Parse p s) = []"
proof -
  from assms(3) have ne: "s \<noteq> []"
    by (auto simp: repo_name_def)
  note sh = userRepo_match_shape [OF assms(2) ne]
  let ?r = "emptyResult\<lparr>User := repo_owner s, Name := repo_name s\<rparr>"
  have st: "Parse_repo p s = (?r, [])"
    using assms(4) by (simp add: Parse_repo_match [OF assms(2) ne])
  have hr: "HasRepo ?r" "Query ?r = []"
    using sh assms(3) by (simp_all add: HasRepo_def emptyResult_def)
  have "Parse p s = ?r"
    using Parse_with_repo [OF assms(1) st hr(1)] Parse_rest_Nil [OF hr] by simp
  moreover have "Repo ?r = s"
    using sh assms(3) by (intro Repo_fields) simp_all
  ultimately show ?thesis
    by (simp add: emptyResult_def)
qed

theorem C8_canonical_form_witness:
  "userRepoRegexp_FindString ''zerowidth/dotfiles'' = ''zerowidth/dotfiles''
   \<and> Parse (NewParser [''df'' \<mapsto> ''zerowidth/dotfiles''] [''z'' \<mapsto> ''zerowidth''] []
        [WithRepo, WithUser, WithIssue]) ''zerowidth/dotfiles''
       = emptyResult\<lparr>User := ''zerowidth'', Name := ''dotfiles''\<rparr>
   \<and> Repo (Parse (NewParser [''df'' \<mapsto> ''zerowidth/dotfiles''] [''z'' \<mapsto> ''zerowidth''] []
        [WithRepo, WithUser, WithIssue]) ''zerowidth/dotfiles'') = ''zerowidth/dotfiles''"
proof -
  let ?p = "NewParser [''df'' \<mapsto> ''zerowidth/dotfiles''] [''z'' \<mapsto> ''zerowidth''] []
        [WithRepo, WithUser, WithIssue]"
  have o: "repo_owner ''zerowidth/dotfiles'' = ''zerowidth''"
    "repo_name ''zerowidth/dotfiles'' = ''dotfiles''"
    by code_simp+
  have p: "parseRepo ?p" "userMap ?p (repo_owner ''zerowidth/dotfiles'') = None"
    unfolding o by (simp_all add: NewParser_def WithRepo_def WithUser_def WithIssue_def)
  have a: "userRepoRegexp_FindString ''zerowidth/dotfiles'' = ''zerowidth/dotfiles''"
    by code_simp
  have n: "repo_name ''zerowidth/dotfiles'' \<noteq> []"
    unfolding o by simp
  from C8_canonical_form [OF p(1) a n p(2)] a o
  show ?thesis
    by (simp add: Repo_def HasRepo_def emptyResult_def)
qed

subsection \<open>A token of digits and the default repository\<close>

text \<open>
  C1, as amended: take a parser that looks for a repository and accepts a bare user, with a
  default repository of the form owner/name (both parts present), and an input whose
  leading bare token \<open>u\<close> is all digits, is a key of neither table and is not part of an
  owner/name token. If \<open>u\<close> has no leading zero and is the whole input, Parse returns the
  default repository with the issue \<open>u\<close> and nothing else; the field \<open>User\<close> then holds the
  owner of the default repository and no longer the token. If \<open>u\<close> has no leading zero and
  input remains after it, Parse returns the empty result. If \<open>u\<close> has a leading zero, it is
  not taken for an issue: it stays the user, no default repository is assigned, and Parse
  goes on with the ordinary rules.
\<close>

theorem C1_digit_token_default_repo:
  assumes "parseRepo p" "parseUser p"
    and "HasRepo (SetRepo emptyResult (defaultRepo p))"
    and "userRepoRegexp_FindString input = []"
    and "userRegexp_FindString input = u" "u \<noteq> []" "list_all is_digit u"
    and "repoMap p u = None" "userMap p u = None"
  shows "(hd u \<noteq> CHR ''0'' \<and> drop (length u) input = [] \<longrightarrow>
            Parse p input =
              emptyResult\<lparr>User := repo_owner (defaultRepo p), Name := repo_name (defaultRepo p),
                Issue := u\<rparr>
          \<and> Repo (Parse p input) = defaultRepo p)
       \<and> (hd u \<noteq> CHR ''0'' \<and> drop (length u) input \<noteq> [] \<longrightarrow> Parse p input = emptyResult)
       \<and> (hd u = CHR ''0'' \<longrightarrow>
            Parse p input = Parse_rest p (emptyResult\<lparr>User := u\<rparr>, drop (length u) input))"
proof -
  from assms(3) have d: "CHR ''/'' \<in> set (defaultRepo p)" "repo_owner (defaultRepo p) \<noteq> []"
    "repo_name (defaultRepo p) \<noteq> []"
    using HasRepo_SetRepo by blast+
  then have ne: "defaultRepo p \<noteq> []"
    by auto
  have st: "Parse_repo p input = (emptyResult\<lparr>User := u\<rparr>, drop (length u) input)"
    using assms by (simp add: Parse_repo_token)
  have nr: "\<not> HasRepo (emptyResult\<lparr>User := u\<rparr>)" "HasUser (emptyResult\<lparr>User := u\<rparr>)"
    using assms(6) by (simp_all add: HasRepo_def HasUser_def emptyResult_def)
  let ?r = "emptyResult\<lparr>User := repo_owner (defaultRepo p), Name := repo_name (defaultRepo p),
    Issue := u\<rparr>"
  have hr: "HasRepo ?r" "Query ?r = []"
    using d by (simp_all add: HasRepo_def emptyResult_def)
  have rp: "Repo ?r = defaultRepo p"
    using d by (intro Repo_fields) simp_all
  have iss: "issueRegexp_FindString u = u" if "hd u \<noteq> CHR ''0''"
    using assms that by (simp add: issueRegexp_FindString_def issueRegexp_digits)
  have rej: "Parse p input = emptyResult" if "hd u \<noteq> CHR ''0''" "drop (length u) input \<noteq> []"
    using that(2) assms(1,2,6) ne st iss [OF that(1)] nr by (simp add: Parse_def Parse_default_def)
  have acc: "Parse p input = ?r" if "hd u \<noteq> CHR ''0''" "drop (length u) input = []"
  proof -
    have "Parse_default p (Parse_repo p input) = Some (?r, [])"
      using that(2) assms(1,2,6) ne st iss [OF that(1)] nr d(1)
      by (simp add: Parse_default_def SetRepo_fields emptyResult_def)
    then show ?thesis
      using assms(1) Parse_rest_Nil [OF hr] by (simp add: Parse_def)
  qed
  have zero: "Parse p input = Parse_rest p (emptyResult\<lparr>User := u\<rparr>, drop (length u) input)"
    if "hd u = CHR ''0''"
  proof -
    have "issueRegexp_FindString u = []"
      using assms(6) that by (simp add: issueRegexp_FindString_def issueRegexp_leading_zero)
    then show ?thesis
      using assms(1,2) ne st nr by (simp add: Parse_def Parse_default_def)
  qed
  from acc rej zero rp show ?thesis
    by simp
qed

text \<open>The example of the specification: default repository org/repo, inputs 123 and 123 extra.\<close>

theorem C1_digit_token_default_repo_witness:
  "Parse (NewParser Map.empty Map.empty ''org/repo'' [WithRepo, WithUser]) ''123''
     = emptyResult\<lparr>User := ''org'', Name := ''repo'', Issue := ''123''\<rparr>
   \<and> Repo (Parse (NewParser Map.empty Map.empty ''org/repo'' [WithRepo, WithUser]) ''123'')
     = ''org/repo''
   \<and> Parse (NewParser Map.empty Map.empty ''org/repo'' [WithRepo, WithUser]) ''123 extra''
     = emptyResult"
proof -
  let ?p = "NewParser Map.empty Map.empty ''org/repo'' [WithRepo, WithUser]"
  have p: "parseRepo ?p" "parseUser ?p" "defaultRepo ?p = ''org/repo''"
    "repoMap ?p ''123'' = None" "userMap ?p ''123'' = None"
    by (simp_all add: NewParser_def WithRepo_def WithUser_def)
  have d: "HasRepo (SetRepo emptyResult (defaultRepo ?p))"
    "repo_owner ''org/repo'' = ''org''" "repo_name ''org/repo'' = ''repo''"
    unfolding p(3) by code_simp+
  have a: "userRepoRegexp_FindString ''123'' = []" "userRegexp_FindString ''123'' = ''123''"
    "list_all is_digit ''123''"
    by code_simp+
  have b: "userRepoRegexp_FindString ''123 extra'' = []"
    "userRegexp_FindString ''123 extra'' = ''123''"
    by code_simp+
  have c: "''123'' \<noteq> []"
    by simp
  from C1_digit_token_default_repo [OF p(1,2) d(1) a(1,2) c a(3) p(4,5)]
    C1_digit_token_default_repo [OF p(1,2) d(1) b(1,2) c a(3) p(4,5)] p(3) d(2,3)
  show ?thesis
    by (simp add: Repo_def HasRepo_def emptyResult_def)
qed

text \<open>
  C1 as stated, for every leading token of digits, fails for a token with a leading zero:
  \<open>issueRegexp\<close> wants a first digit from 1 to 9 (line 95), so with the default repository
  org/repo the input 007 is not turned into an issue. It stays the user, and the result has
  no repository and no issue.
\<close>

theorem C1_leading_zero_counterexample:
  "userRepoRegexp_FindString ''007'' = []
   \<and> userRegexp_FindString ''007'' = ''007''
   \<and> list_all is_digit ''007''
   \<and> Parse (NewParser Map.empty Map.empty ''org/repo'' [WithRepo, WithUser]) ''007''
       = emptyResult\<lparr>User := ''007''\<rparr>
   \<and> Repo (Parse (NewParser Map.empty Map.empty ''org/repo'' [WithRepo, WithUser]) ''007'') = []
   \<and> Issue (Parse (NewParser Map.empty Map.empty ''org/repo'' [WithRepo, WithUser]) ''007'') = []"
  by code_simp

text \<open>
  C9: with an empty default repository the block of lines 91 to 110 changes nothing and
  never returns: Parse is the rest of the method (required repository, issue, path, query
  or leftover) run on what the recognition of lines 65 to 88 gives. In particular a leading
  token \<open>u\<close> of digits that is a key of neither table and was taken as the user is handed to
  those rules as the user, and the result is either the empty one, by those rules, or has
  \<open>u\<close> as its user and no repository.
\<close>

theorem C9_no_default_repo:
  assumes "parseRepo p" "defaultRepo p = []"
  shows "Parse p input = Parse_rest p (Parse_repo p input)
       \<and> (parseUser p \<and> userRepoRegexp_FindString input = [] \<and> userRegexp_FindString input = u
            \<and> u \<noteq> [] \<and> list_all is_digit u \<and> repoMap p u = None \<and> userMap p u = None \<longrightarrow>
          Parse p input = Parse_rest p (emptyResult\<lparr>User := u\<rparr>, drop (length u) input)
          \<and> (Parse p input = emptyResult \<or>
               NewResult.User (Parse p input) = u \<and> NewResult.Name (Parse p input) = []))"
proof -
  have a: "Parse p input = Parse_rest p (Parse_repo p input)"
    using assms by (simp add: Parse_def Parse_default_none)
  have b: "Parse p input = Parse_rest p (emptyResult\<lparr>User := u\<rparr>, drop (length u) input)"
    if "parseUser p" "userRepoRegexp_FindString input = []" "userRegexp_FindString input = u"
      "u \<noteq> []" "repoMap p u = None" "userMap p u = None"
    using a that by (simp add: Parse_repo_token)
  have c: "Parse_rest p (emptyResult\<lparr>User := u\<rparr>, drop (length u) input) = emptyResult \<or>
      NewResult.User (Parse_rest p (emptyResult\<lparr>User := u\<rparr>, drop (length u) input)) = u \<and>
      NewResult.Name (Parse_rest p (emptyResult\<lparr>User := u\<rparr>, drop (length u) input)) = []"
    using Parse_rest_keeps [of p "emptyResult\<lparr>User := u\<rparr>" "drop (length u) input"]
    by (auto simp: emptyResult_def)
  from a b c show ?thesis
    by auto
qed

theorem C9_no_default_repo_witness:
  "Parse (NewParser Map.empty Map.empty [] [WithRepo, WithUser, WithQuery]) ''123 extra''
     = Parse_rest (NewParser Map.empty Map.empty [] [WithRepo, WithUser, WithQuery])
         (emptyResult\<lparr>User := ''123''\<rparr>, '' extra'')
   \<and> Parse (NewParser Map.empty Map.empty [] [WithRepo, WithUser, WithQuery]) ''123 extra''
     = emptyResult\<lparr>User := ''123'', Query := ''extra''\<rparr>"
proof -
  let ?p = "NewParser Map.empty Map.empty [] [WithRepo, WithUser, WithQuery]"
  have p: "parseRepo ?p" "defaultRepo ?p = []" "parseUser ?p" "repoMap ?p ''123'' = None"
    "userMap ?p ''123'' = None"
    by (simp_all add: NewParser_def WithRepo_def WithUser_def WithQuery_def)
  have a: "userRepoRegexp_FindString ''123 extra'' = []"
    "userRegexp_FindString ''123 extra'' = ''123''" "list_all is_digit ''123''"
    by code_simp+
  have e: "Parse ?p ''123 extra'' = emptyResult\<lparr>User := ''123'', Query := ''extra''\<rparr>"
    by code_simp
  have h: "parseUser ?p \<and> userRepoRegexp_FindString ''123 extra'' = []
      \<and> userRegexp_FindString ''123 extra'' = ''123'' \<and> ''123'' \<noteq> []
      \<and> list_all is_digit ''123'' \<and> repoMap ?p ''123'' = None \<and> userMap ?p ''123'' = None"
    using p a by simp
  from C9_no_default_repo [OF p(1,2), of "''123 extra''" "''123''"] h
  have "Parse ?p ''123 extra''
      = Parse_rest ?p (emptyResult\<lparr>User := ''123''\<rparr>, drop (length ''123'') ''123 extra'')"
    by blast
  with e show ?thesis
    by simp
qed

subsection \<open>The simplified entry point\<close>

text \<open>
  C4, as amended: in the simplified entry point with \<open>bareUser\<close> and \<open>ignoreNumeric\<close> both
  true, let the leading bare token \<open>u\<close> be all digits and a key of neither table. The token
  is kept from being the user exactly when the whole input matches \<open>issueRegexp\<close>, that
  is, when the input is the token alone and the token has no leading zero: then the user is
  absent and the query is the token. Otherwise (further text follows the token, or the
  token has a leading zero) the token is the user, and the query is the trimmed rest.
\<close>

theorem C4_ignoreNumeric:
  assumes "userRepoRegexp_FindString input = []"
    and "userRegexp_FindString input = u" "u \<noteq> []" "list_all is_digit u"
    and "rm u = None" "um u = None"
  shows "(input = u \<and> hd u \<noteq> CHR ''0'' \<longrightarrow>
            Parse_simple rm um input True True = zeroResult\<lparr>Result.Query := u\<rparr>)
       \<and> (input \<noteq> u \<or> hd u = CHR ''0'' \<longrightarrow>
            Parse_simple rm um input True True =
              zeroResult\<lparr>Result.User := u,
                Result.Query := TrimPrefix (TrimRight (drop (length u) input) '' '') '' ''\<rparr>)"
  using assms issue_match_of_token [of input u] trim_digits [of u]
  by (auto simp: Parse_simple_token)

theorem C4_ignoreNumeric_witness:
  "Parse_simple Map.empty Map.empty ''123'' True True = zeroResult\<lparr>Result.Query := ''123''\<rparr>
   \<and> Parse_simple Map.empty Map.empty ''007'' True True = zeroResult\<lparr>Result.User := ''007''\<rparr>
   \<and> Parse_simple Map.empty Map.empty ''123 extra'' True True
       = zeroResult\<lparr>Result.User := ''123'', Result.Query := ''extra''\<rparr>"
proof -
  have a: "userRepoRegexp_FindString ''123'' = []" "userRegexp_FindString ''123'' = ''123''"
    "list_all is_digit ''123''"
    by code_simp+
  have b: "userRepoRegexp_FindString ''007'' = []" "userRegexp_FindString ''007'' = ''007''"
    "list_all is_digit ''007''"
    by code_simp+
  have c: "userRepoRegexp_FindString ''123 extra'' = []"
    "userRegexp_FindString ''123 extra'' = ''123''"
    by code_simp+
  have t: "TrimPrefix (TrimRight [] '' '') '' '' = []"
    "TrimPrefix (TrimRight '' extra'' '' '') '' '' = ''extra''"
    by code_simp+
  have n: "''123'' \<noteq> []" "''007'' \<noteq> []" "Map.empty ''123'' = None" "Map.empty ''007'' = None"
    by simp_all
  from C4_ignoreNumeric [OF a(1,2) n(1) a(3) n(3,3)] C4_ignoreNumeric [OF b(1,2) n(2) b(3) n(4,4)]
    C4_ignoreNumeric [OF c(1,2) n(1) a(3) n(3,3)] t
  show ?thesis
    by (simp add: zeroResult_def)
qed

text \<open>
  C4 as stated fails on its own example: for the input \<^verbatim>\<open>123 extra\<close> line 168 tests the
  whole input against \<open>issueRegexp\<close>, which does not match it, so 123 is the user and
  the query is \<^verbatim>\<open>extra\<close>.
\<close>

theorem C4_digits_then_text_counterexample:
  "userRepoRegexp_FindString ''123 extra'' = []
   \<and> userRegexp_FindString ''123 extra'' = ''123''
   \<and> list_all is_digit ''123''
   \<and> Parse_simple Map.empty Map.empty ''123 extra'' True True
       = zeroResult\<lparr>Result.User := ''123'', Result.Query := ''extra''\<rparr>"
  by code_simp

text \<open>
  C10, as amended: in the simplified entry point let the input start with a bare token \<open>u\<close>
  and with no owner/name token. If \<open>u\<close> is a key of the repository table, it is taken as
  repository shorthand, whether or not it is a key of the user table and whatever the two
  flags are: \<open>SetRepo\<close> is applied to the mapped value (the repository is that value
  when it has the form owner/name), \<open>u\<close> is the repository shorthand and no user shorthand
  is recorded. If \<open>u\<close> is a key of the user table and not of the repository table, the user
  is its expansion and \<open>u\<close> the shorthand, whatever the two flags are. If \<open>u\<close> is a key of
  either table, \<open>bareUser\<close> makes no difference to the result. If it is a key of neither and
  \<open>bareUser\<close> is false, no user is set and the whole input is the query.
\<close>

theorem C10_user_shorthand:
  assumes "userRepoRegexp_FindString input = []"
    and "userRegexp_FindString input = u" "u \<noteq> []"
  shows "(rm u = None \<and> um u = Some su \<longrightarrow>
            Parse_simple rm um input bareUser ignoreNumeric =
              zeroResult\<lparr>UserMatch := u, Result.User := su,
                Result.Query := TrimPrefix (TrimRight (drop (length u) input) '' '') '' ''\<rparr>)
       \<and> (rm u \<noteq> None \<or> um u \<noteq> None \<longrightarrow>
            Parse_simple rm um input True ignoreNumeric =
            Parse_simple rm um input False ignoreNumeric)
       \<and> (rm u = None \<and> um u = None \<longrightarrow>
            Parse_simple rm um input False ignoreNumeric =
              zeroResult\<lparr>Result.Query := TrimPrefix (TrimRight input '' '') '' ''\<rparr>)
       \<and> (rm u = Some sr \<longrightarrow>
            Parse_simple rm um input bareUser ignoreNumeric =
              (Result_SetRepo zeroResult sr)
                \<lparr>RepoMatch := u,
                 Result.Query := TrimPrefix (TrimRight (drop (length u) input) '' '') '' ''\<rparr>
          \<and> RepoMatch (Parse_simple rm um input bareUser ignoreNumeric) = u
          \<and> UserMatch (Parse_simple rm um input bareUser ignoreNumeric) = [])
       \<and> (rm u = Some sr \<and> CHR ''/'' \<in> set sr \<and> repo_owner sr \<noteq> [] \<and> repo_name sr \<noteq> [] \<longrightarrow>
            Result_Repo (Parse_simple rm um input bareUser ignoreNumeric) = sr
          \<and> Result.User (Parse_simple rm um input bareUser ignoreNumeric) = repo_owner sr)"
proof -
  have a: "Parse_simple rm um input bareUser ignoreNumeric =
      zeroResult\<lparr>UserMatch := u, Result.User := su,
        Result.Query := TrimPrefix (TrimRight (drop (length u) input) '' '') '' ''\<rparr>"
    if "rm u = None" "um u = Some su"
    using assms that by (simp add: Parse_simple_token)
  have b: "Parse_simple rm um input True ignoreNumeric = Parse_simple rm um input False ignoreNumeric"
    if "rm u \<noteq> None \<or> um u \<noteq> None"
    using assms(2) that by (intro Parse_simple_bareUser_only) auto
  have c: "Parse_simple rm um input False ignoreNumeric =
      zeroResult\<lparr>Result.Query := TrimPrefix (TrimRight input '' '') '' ''\<rparr>"
    if "rm u = None" "um u = None"
    using assms that by (simp add: Parse_simple_token)
  have d: "Parse_simple rm um input bareUser ignoreNumeric =
              (Result_SetRepo zeroResult sr)
                \<lparr>RepoMatch := u,
                 Result.Query := TrimPrefix (TrimRight (drop (length u) input) '' '') '' ''\<rparr>
          \<and> RepoMatch (Parse_simple rm um input bareUser ignoreNumeric) = u
          \<and> UserMatch (Parse_simple rm um input bareUser ignoreNumeric) = []"
    if "rm u = Some sr"
    using assms that
    by (simp add: Parse_simple_repo_token [where rm = rm and sr = sr] Result_SetRepo_def
        zeroResult_def)
  have e: "Result_Repo (Parse_simple rm um input bareUser ignoreNumeric) = sr
          \<and> Result.User (Parse_simple rm um input bareUser ignoreNumeric) = repo_owner sr"
    if "rm u = Some sr" "CHR ''/'' \<in> set sr" "repo_owner sr \<noteq> []" "repo_name sr \<noteq> []"
    using assms that Result_Repo_SetRepo [OF that(2-4)]
    by (simp add: Parse_simple_repo_token [where rm = rm and sr = sr] Result_SetRepo_def)
  from a b c d e show ?thesis
    by blast
qed

theorem C10_user_shorthand_witness:
  "Parse_simple Map.empty [''z'' \<mapsto> ''zerowidth''] ''z foo'' False True
     = zeroResult\<lparr>UserMatch := ''z'', Result.User := ''zerowidth'', Result.Query := ''foo''\<rparr>
   \<and> Parse_simple Map.empty [''z'' \<mapsto> ''zerowidth''] ''z foo'' True True
     = Parse_simple Map.empty [''z'' \<mapsto> ''zerowidth''] ''z foo'' False True
   \<and> Result_Repo (Parse_simple [''wp'' \<mapsto> ''my/widgets''] [''wp'' \<mapsto> ''will''] ''wp foo'' False False)
     = ''my/widgets''
   \<and> RepoMatch (Parse_simple [''wp'' \<mapsto> ''my/widgets''] [''wp'' \<mapsto> ''will''] ''wp foo'' False False)
     = ''wp''
   \<and> UserMatch (Parse_simple [''wp'' \<mapsto> ''my/widgets''] [''wp'' \<mapsto> ''will''] ''wp foo'' False False)
     = []"
proof -
  have a: "userRepoRegexp_FindString ''z foo'' = []" "userRegexp_FindString ''z foo'' = ''z''"
    "userRepoRegexp_FindString ''wp foo'' = []" "userRegexp_FindString ''wp foo'' = ''wp''"
    by code_simp+
  have t: "TrimPrefix (TrimRight '' foo'' '' '') '' '' = ''foo''"
    by code_simp
  have n: "''z'' \<noteq> []" "''wp'' \<noteq> []"
    by simp_all
  have m: "Map.empty ''z'' = None \<and> [''z'' \<mapsto> ''zerowidth''] ''z'' = Some ''zerowidth''"
    by simp
  have w: "[''wp'' \<mapsto> ''my/widgets''] ''wp'' = Some ''my/widgets'' \<and> CHR ''/'' \<in> set ''my/widgets''
      \<and> repo_owner ''my/widgets'' \<noteq> [] \<and> repo_name ''my/widgets'' \<noteq> []"
    by (simp add: repo_owner_def repo_name_def)
  note t1 = C10_user_shorthand [OF a(1,2) n(1), where rm = Map.empty
      and um = "[''z'' \<mapsto> ''zerowidth'']" and su = "''zerowidth''" and bareUser = False
      and ignoreNumeric = True]
  note t2 = C10_user_shorthand [OF a(3,4) n(2), where rm = "[''wp'' \<mapsto> ''my/widgets'']"
      and um = "[''wp'' \<mapsto> ''will'']" and bareUser = False and ignoreNumeric = False
      and sr = "''my/widgets''"]
  from t1 m t have c1: "Parse_simple Map.empty [''z'' \<mapsto> ''zerowidth''] ''z foo'' False True
     = zeroResult\<lparr>UserMatch := ''z'', Result.User := ''zerowidth'', Result.Query := ''foo''\<rparr>
   \<and> Parse_simple Map.empty [''z'' \<mapsto> ''zerowidth''] ''z foo'' True True
     = Parse_simple Map.empty [''z'' \<mapsto> ''zerowidth''] ''z foo'' False True"
    by simp
  from t2 w have c2:
    "Result_Repo (Parse_simple [''wp'' \<mapsto> ''my/widgets''] [''wp'' \<mapsto> ''will''] ''wp foo'' False False)
       = ''my/widgets''
     \<and> RepoMatch (Parse_simple [''wp'' \<mapsto> ''my/widgets''] [''wp'' \<mapsto> ''will''] ''wp foo'' False False)
       = ''wp''
     \<and> UserMatch (Parse_simple [''wp'' \<mapsto> ''my/widgets''] [''wp'' \<mapsto> ''will''] ''wp foo'' False False)
       = []"
    by blast
  from c1 c2 show ?thesis
    by blast
qed

text \<open>
  C10 as stated, for every token that is a key of the user table, fails for a token that is
  a key of the repository table as well: the repository table is asked first (line 160),
  so \<^verbatim>\<open>foo\<close> becomes the repository a/b and no user shorthand is recorded.
\<close>

theorem C10_both_tables_counterexample:
  "userRepoRegexp_FindString ''foo'' = [] \<and> userRegexp_FindString ''foo'' = ''foo''
   \<and> Parse_simple [''foo'' \<mapsto> ''a/b''] [''foo'' \<mapsto> ''bar''] ''foo'' False False
       = zeroResult\<lparr>Result.User := ''a'', Result.Name := ''b'', RepoMatch := ''foo''\<rparr>
   \<and> UserMatch (Parse_simple [''foo'' \<mapsto> ''a/b''] [''foo'' \<mapsto> ''bar''] ''foo'' False False) = []"
  by code_simp

subsection \<open>The issue token\<close>

text \<open>
  C6: for a parser that looks for an issue, the issue block records an issue exactly when
  the remaining input has the form of the specification: an optional space, an optional
  \<^verbatim>\<open>#\<close>, then digits with no leading zero, to the end. Then the issue is the digits and
  the input is consumed whole; otherwise the result and the input are left as they are. In
  particular \<^verbatim>\<open>0\<close>, \<^verbatim>\<open>#01\<close> and digits followed by a text that is not all digits are
  not recognized. For Parse itself, with \<open>res\<close> and \<open>s\<close> the result and the remaining input
  after the earlier steps (lines 62 to 116): if \<open>s\<close> has that form, Parse returns \<open>res\<close>
  with the digits as its issue (and an empty query); if not, Parse goes on with the path and
  the query on \<open>res\<close> and \<open>s\<close> unchanged, so its result is the empty one or has the issue
  that \<open>res\<close> had.
\<close>

theorem C6_issue_shape:
  assumes "parseIssue p"
  shows "(spec_issue_shape s ds \<longrightarrow> Parse_issue p (res, s) = (res\<lparr>Issue := ds\<rparr>, []))
       \<and> ((\<forall>ds. \<not> spec_issue_shape s ds) \<longrightarrow> Parse_issue p (res, s) = (res, s))
       \<and> Parse_issue p (res, ''0'') = (res, ''0'')
       \<and> Parse_issue p (res, ''#01'') = (res, ''#01'')
       \<and> (ds \<noteq> [] \<and> list_all is_digit ds \<and> \<not> list_all is_digit t \<longrightarrow>
            Parse_issue p (res, ds @ t) = (res, ds @ t))
       \<and> (Parse_before_issue p input = Some (res, s) \<and> spec_issue_shape s ds \<longrightarrow>
            Parse p input = (if parseQuery p then res\<lparr>Issue := ds, Query := []\<rparr> else res\<lparr>Issue := ds\<rparr>)
          \<and> Issue (Parse p input) = ds)
       \<and> (Parse_before_issue p input = Some (res, s) \<and> (\<forall>ds. \<not> spec_issue_shape s ds) \<longrightarrow>
            Parse p input = Parse_query p (Parse_path p (res, s))
          \<and> (Parse p input = emptyResult \<or> Issue (Parse p input) = Issue res))"
proof -
  have a: "spec_issue_shape s ds \<Longrightarrow> Parse_issue p (res, s) = (res\<lparr>Issue := ds\<rparr>, [])"
    using assms by (simp add: Parse_issue_def issueRegexp_shape)
  have b: "Parse_issue p (res, s) = (res, s)" if "\<forall>ds. \<not> spec_issue_shape s ds"
  proof (cases "issueRegexp_FindStringSubmatch s")
    case None
    then show ?thesis by (simp add: Parse_issue_def)
  next
    case (Some m)
    with that issueRegexp_match_shape [of s "fst m" "snd m"] show ?thesis by simp
  qed
  have "issueRegexp_FindStringSubmatch ''0'' = None" "issueRegexp_FindStringSubmatch ''#01'' = None"
    by (simp_all add: issueRegexp_FindStringSubmatch_def skip_optional_def)
  then have c: "Parse_issue p (res, ''0'') = (res, ''0'')" "Parse_issue p (res, ''#01'') = (res, ''#01'')"
    by (simp_all add: Parse_issue_def)
  have d: "Parse_issue p (res, ds @ t) = (res, ds @ t)"
    if "ds \<noteq> [] \<and> list_all is_digit ds \<and> \<not> list_all is_digit t"
    using that by (simp add: Parse_issue_def issueRegexp_digits_then_text)
  have e: "Parse p input = (if parseQuery p then res\<lparr>Issue := ds, Query := []\<rparr> else res\<lparr>Issue := ds\<rparr>)
      \<and> Issue (Parse p input) = ds"
    if "Parse_before_issue p input = Some (res, s)" "spec_issue_shape s ds"
    using that a by (simp add: Parse_eq_before_issue Parse_path_Nil Parse_query_Nil)
  have f: "Parse p input = Parse_query p (Parse_path p (res, s))
      \<and> (Parse p input = emptyResult \<or> Issue (Parse p input) = Issue res)"
    if "Parse_before_issue p input = Some (res, s)" "\<forall>ds. \<not> spec_issue_shape s ds"
  proof -
    have "Parse p input = Parse_query p (Parse_path p (res, s))"
      using that b by (simp add: Parse_eq_before_issue)
    moreover have "Parse_query p (Parse_path p (res, s)) = emptyResult \<or>
        Issue (Parse_query p (Parse_path p (res, s))) = Issue res"
      using Parse_query_Issue [of p "Parse_path p (res, s)"] Parse_path_Issue [of p "(res, s)"]
      by simp
    ultimately show ?thesis by simp
  qed
  from a b c d e f show ?thesis
    by blast
qed

theorem C6_issue_shape_witness:
  "spec_issue_shape '' #42'' ''42''
   \<and> Parse_issue (NewParser Map.empty Map.empty [] [WithIssue]) (emptyResult, '' #42'')
       = (emptyResult\<lparr>Issue := ''42''\<rparr>, [])
   \<and> Parse_issue (NewParser Map.empty Map.empty [] [WithIssue]) (emptyResult, ''0'')
       = (emptyResult, ''0'')
   \<and> Parse_issue (NewParser Map.empty Map.empty [] [WithIssue]) (emptyResult, ''12 ab'')
       = (emptyResult, ''12 ab'')
   \<and> Parse_before_issue (NewParser [''wp'' \<mapsto> ''my/widgets''] Map.empty [] [WithRepo, WithIssue])
        ''wp #42''
       = Some (emptyResult\<lparr>User := ''my'', Name := ''widgets'', RepoShorthand := ''wp''\<rparr>, '' #42'')
   \<and> Parse (NewParser [''wp'' \<mapsto> ''my/widgets''] Map.empty [] [WithRepo, WithIssue]) ''wp #42''
       = emptyResult\<lparr>User := ''my'', Name := ''widgets'', RepoShorthand := ''wp'', Issue := ''42''\<rparr>
   \<and> Issue (Parse (NewParser [''wp'' \<mapsto> ''my/widgets''] Map.empty [] [WithRepo, WithIssue])
        ''wp #42'') = ''42''"
proof -
  let ?p = "NewParser Map.empty Map.empty [] [WithIssue]"
  let ?q = "NewParser [''wp'' \<mapsto> ''my/widgets''] Map.empty [] [WithRepo, WithIssue]"
  let ?r = "emptyResult\<lparr>User := ''my'', Name := ''widgets'', RepoShorthand := ''wp''\<rparr>"
  have p: "parseIssue ?p"
    by (simp add: NewParser_def WithIssue_def)
  have q: "parseIssue ?q" "\<not> parseQuery ?q"
    by (simp_all add: NewParser_def WithRepo_def WithIssue_def)
  have a: "spec_issue_shape '' #42'' ''42''" "list_all is_digit ''12''" "\<not> list_all is_digit '' ab''"
    by code_simp+
  have b: "Parse_before_issue ?q ''wp #42'' = Some (?r, '' #42'')"
    by code_simp
  from C6_issue_shape [OF p, of "'' #42''" "''42''" emptyResult]
    C6_issue_shape [OF p, of _ "''12''" emptyResult "'' ab''"]
    C6_issue_shape [OF q(1), of "'' #42''" "''42''" ?r _ "''wp #42''"] a b q(2)
  show ?thesis
    by simp
qed

end
